theory Spec2Isabelle
  imports Main "HOL-Library.Word"
begin

section \<open>Go values shared by both packages\<close>

text \<open>
  A Go call either returns its results or panics. The panics of the two files are
  branches of the model: the explicit \<^verbatim>\<open>panic("not implemented")\<close>, the run-time panic
  of a method call on a nil interface and of a field read through a nil pointer, and a
  panic of the object storage gateway, which passes through its caller.
\<close>

datatype panic_value =
    PanicString string
  | NilDereference

datatype 'a outcome =
    Returns 'a
  | Panics panic_value

text \<open>
  The values of Go's \<^verbatim>\<open>error\<close> interface that the two packages can hand to a caller.
  A nil \<^verbatim>\<open>error\<close> is \<open>None\<close> of \<open>error option\<close>. \<open>PathError\<close> is \<^verbatim>\<open>*fs.PathError\<close>,
  the only error \<^verbatim>\<open>os.Open\<close> returns, with the error number of the failed system call
  (not found, permission denied, or any other, by its number); the other constructors
  stand for the errors of the callees whose code is not part of the two files (the HTTP
  client, the object storage gateway, a routing provider), identified by their text.
\<close>

datatype errno = ENOENT | EACCES | Errno nat

datatype error =
    PathError string string errno
  | NetError string
  | GatewayError string
  | ProviderError string

type_synonym byte = "8 word"

section \<open>Package schema: dict sources (common/schema/dictsources.go)\<close>

subsection \<open>Streams\<close>

text \<open>
  \<^verbatim>\<open>*os.File\<close> is a pointer: \<open>None\<close> is the nil pointer, \<open>Some f\<close> an open file.
  An open file is modelled by the path it was opened with and the bytes it reads.
\<close>

datatype File = File (file_name: string) (file_bytes: "byte list")

text \<open>
  A non-nil value of the interface \<^verbatim>\<open>io.ReadCloser\<close> is a dynamic type with a value of
  that type. \<open>OsFile p\<close> has dynamic type \<^verbatim>\<open>*os.File\<close> and holds the pointer \<open>p\<close>,
  which may be nil: Go's conversion of a nil \<^verbatim>\<open>*os.File\<close> to an interface type gives an
  interface value that is not nil. \<open>Stream bs\<close> is a reader of any other dynamic type,
  delivering the bytes \<open>bs\<close>. The nil interface is \<open>None\<close> of \<open>ReadCloser option\<close>.
\<close>

datatype ReadCloser =
    OsFile "File option"
  | Stream "byte list"

text \<open>
  \<^verbatim>\<open>io.ReadAll\<close> on a stream. The methods of \<^verbatim>\<open>*os.File\<close> check their receiver and
  return \<^verbatim>\<open>os.ErrInvalid\<close> on the nil pointer.
\<close>

datatype read_error = ErrInvalid

fun ReadAll :: "ReadCloser \<Rightarrow> read_error + byte list" where
  "ReadAll (OsFile None) = Inl ErrInvalid"
| "ReadAll (OsFile (Some f)) = Inr (file_bytes f)"
| "ReadAll (Stream bs) = Inr bs"

text \<open>A stream a caller can read from: a non-nil interface that does not wrap a nil pointer.\<close>

fun usable :: "ReadCloser option \<Rightarrow> bool" where
  "usable None = False"
| "usable (Some (OsFile None)) = False"
| "usable (Some (OsFile (Some f))) = True"
| "usable (Some (Stream bs)) = True"

subsection \<open>The world outside the package\<close>

text \<open>
  \<^verbatim>\<open>*http.Response\<close>, reduced to the two fields that matter here. \<open>Body\<close> has the
  interface type \<^verbatim>\<open>io.ReadCloser\<close>.
\<close>

record Response =
  StatusCode :: int
  Body :: "ReadCloser option"

text \<open>
  \<^verbatim>\<open>*s3.Component\<close> is a pointer to the object storage gateway, whose code is in another
  package: \<open>None\<close> is the nil pointer, \<open>Some n\<close> the component at address \<open>n\<close>.
\<close>

type_synonym s3_Component_ptr = "nat option"

text \<open>
  Everything the dict sources read from outside:
  \<^item> \<open>files\<close>: what opening a path for reading yields, the error number of the failed
    system call or the bytes of the file;
  \<^item> \<open>http_Get\<close>: the result pair \<^verbatim>\<open>(resp *http.Response, err error)\<close> of
    \<^verbatim>\<open>http.Get(url)\<close>;
  \<^item> \<open>GetObject\<close>: the method \<^verbatim>\<open>(*s3.Component).GetObject(config, key)\<close> of the gateway,
    taken as a parameter: its receiver, its two arguments, and its result pair
    \<^verbatim>\<open>(io.ReadCloser, error)\<close> or its panic.
  Result pairs are Go result pairs: each component may be nil independently.
\<close>

record world =
  files :: "string \<Rightarrow> errno + byte list"
  http_Get :: "string \<Rightarrow> Response option \<times> error option"
  GetObject :: "s3_Component_ptr \<Rightarrow> string \<Rightarrow> string \<Rightarrow> (ReadCloser option \<times> error option) outcome"

text \<open>
  \<^verbatim>\<open>os.Open(name)\<close> of the standard library: on success the open file and a nil error,
  on failure the nil pointer and \<^verbatim>\<open>&PathError{Op: "open", Path: name, Err: e}\<close>.
\<close>

definition os_Open :: "world \<Rightarrow> string \<Rightarrow> File option \<times> error option" where
  "os_Open w name =
     (case files w name of
        Inl e \<Rightarrow> (None, Some (PathError ''open'' name e))
      | Inr bs \<Rightarrow> (Some (File name bs), None))"

subsection \<open>Configurations and sources\<close>

text \<open>
  The four configuration structs. \<^verbatim>\<open>FileDictSourceConfiguration\<close> and
  \<^verbatim>\<open>S3MockDictSourceConfiguration\<close> have no field.
\<close>

record HttpDictSourceConfiguration =
  BaseURL :: string

record S3DictSourceConfiguration =
  S3Config :: string

text \<open>The interface \<^verbatim>\<open>DictSourceConfiguration\<close>: one constructor for each implementing type.\<close>

datatype DictSourceConfiguration =
    FileDictSourceConfiguration
  | HttpConfiguration HttpDictSourceConfiguration
  | S3Configuration S3DictSourceConfiguration
  | S3MockDictSourceConfiguration

text \<open>
  The interface \<^verbatim>\<open>DictSource\<close>: the structs \<^verbatim>\<open>FileDictSource{}\<close>, \<^verbatim>\<open>HttpDictSource{}\<close>
  and \<^verbatim>\<open>S3DictSource{config, c}\<close>. The field \<open>c\<close> is the gateway handle.
\<close>

record S3DictSource =
  config :: S3DictSourceConfiguration
  c :: s3_Component_ptr

datatype DictSource =
    FileDictSource
  | HttpDictSource
  | S3Source S3DictSource

type_synonym New_result = "(DictSource option \<times> error option) outcome"
type_synonym Get_result = "(ReadCloser option \<times> error option) outcome"

definition FileDictSourceConfiguration_New :: "s3_Component_ptr \<Rightarrow> New_result" where
  "FileDictSourceConfiguration_New p = Returns (Some FileDictSource, None)"

definition HttpDictSourceConfiguration_New ::
  "HttpDictSourceConfiguration \<Rightarrow> s3_Component_ptr \<Rightarrow> New_result" where
  "HttpDictSourceConfiguration_New hc p = Returns (Some HttpDictSource, None)"

definition S3DictSourceConfiguration_New ::
  "S3DictSourceConfiguration \<Rightarrow> s3_Component_ptr \<Rightarrow> New_result" where
  "S3DictSourceConfiguration_New sc p =
     Returns (Some (S3Source \<lparr>config = sc, c = p\<rparr>), None)"

definition S3MockDictSourceConfiguration_New :: "s3_Component_ptr \<Rightarrow> New_result" where
  "S3MockDictSourceConfiguration_New p = Panics (PanicString ''not implemented'')"

text \<open>The method call \<^verbatim>\<open>cfg.New(c)\<close> through the interface dispatches on the dynamic type.\<close>

fun DictSourceConfiguration_New ::
  "DictSourceConfiguration \<Rightarrow> s3_Component_ptr \<Rightarrow> New_result" where
  "DictSourceConfiguration_New FileDictSourceConfiguration p = FileDictSourceConfiguration_New p"
| "DictSourceConfiguration_New (HttpConfiguration hc) p = HttpDictSourceConfiguration_New hc p"
| "DictSourceConfiguration_New (S3Configuration sc) p = S3DictSourceConfiguration_New sc p"
| "DictSourceConfiguration_New S3MockDictSourceConfiguration p = S3MockDictSourceConfiguration_New p"

text \<open>
  \<^verbatim>\<open>return os.Open(key)\<close>: the two results of \<^verbatim>\<open>os.Open\<close> are assigned to the result
  types \<^verbatim>\<open>(io.ReadCloser, error)\<close>. The first is converted from \<^verbatim>\<open>*os.File\<close> to the
  interface, whatever the pointer is.
\<close>

definition FileDictSource_Get :: "world \<Rightarrow> string \<Rightarrow> Get_result" where
  "FileDictSource_Get w key =
     (case os_Open w key of (f, err) \<Rightarrow> Returns (Some (OsFile f), err))"

text \<open>
  \<^verbatim>\<open>resp.Body\<close> on a nil \<^verbatim>\<open>resp\<close> is a nil pointer dereference; the documentation of
  \<^verbatim>\<open>http.Get\<close> excludes it (a nil error comes with a non-nil response).
\<close>

definition HttpDictSource_Get :: "world \<Rightarrow> string \<Rightarrow> Get_result" where
  "HttpDictSource_Get w key =
     (case http_Get w key of
        (resp, Some err) \<Rightarrow> Returns (None, Some err)
      | (Some resp, None) \<Rightarrow> Returns (Body resp, None)
      | (None, None) \<Rightarrow> Panics NilDereference)"

definition S3DictSource_Get :: "S3DictSource \<Rightarrow> world \<Rightarrow> string \<Rightarrow> Get_result" where
  "S3DictSource_Get s w key =
     (case GetObject w (c s) (S3Config (config s)) key of
        Panics v \<Rightarrow> Panics v
      | Returns (read, Some err) \<Rightarrow> Returns (None, Some err)
      | Returns (read, None) \<Rightarrow> Returns (read, None))"

fun DictSource_Get :: "DictSource \<Rightarrow> world \<Rightarrow> string \<Rightarrow> Get_result" where
  "DictSource_Get FileDictSource w key = FileDictSource_Get w key"
| "DictSource_Get HttpDictSource w key = HttpDictSource_Get w key"
| "DictSource_Get (S3Source s) w key = S3DictSource_Get s w key"

subsection \<open>The registry\<close>

fun DefaultFileDictSourceConfiguration :: "unit \<Rightarrow> DictSourceConfiguration" where
  "DefaultFileDictSourceConfiguration () = FileDictSourceConfiguration"

fun DefaultHttpDictSourceConfiguration :: "unit \<Rightarrow> DictSourceConfiguration" where
  "DefaultHttpDictSourceConfiguration () = HttpConfiguration \<lparr>BaseURL = ''''\<rparr>"

fun DefaultS3DictSourceConfiguration :: "unit \<Rightarrow> DictSourceConfiguration" where
  "DefaultS3DictSourceConfiguration () = S3Configuration \<lparr>S3Config = ''''\<rparr>"

fun DefaultS3MockDictSourceConfiguration :: "unit \<Rightarrow> DictSourceConfiguration" where
  "DefaultS3MockDictSourceConfiguration () = S3MockDictSourceConfiguration"

definition dictSourceConfigurationMap :: "string \<rightharpoonup> (unit \<Rightarrow> DictSourceConfiguration)" where
  "dictSourceConfigurationMap =
     [''file'' \<mapsto> DefaultFileDictSourceConfiguration,
      ''http'' \<mapsto> DefaultHttpDictSourceConfiguration,
      ''s3'' \<mapsto> DefaultS3DictSourceConfiguration,
      ''s3mock'' \<mapsto> DefaultS3MockDictSourceConfiguration]"

subsection \<open>Decoding and encoding a configuration\<close>

text \<open>
  Modelled from the spec: \<^verbatim>\<open>helpers.ParametrizedConfigurationUnmarshallerHook\<close>,
  \<^verbatim>\<open>helpers.ParametrizedConfigurationMarshalYAML\<close> and the type \<^verbatim>\<open>CustomDict\<close> are not
  among the sources; \<open>Decode\<close> and \<open>Encode\<close> follow sections 4.1 and 6 of the
  specification. A raw structured value is a list of fields with scalar values. The
  discriminator field is \<open>kind\<close>; \<open>http\<close> adds \<open>baseURL\<close>; \<open>s3\<close> adds the reference to
  the named object storage configuration, whose field name the specification leaves
  open (\<open>s3Config\<close> here); \<open>file\<close> and \<open>s3mock\<close> add nothing.
\<close>

type_synonym raw = "(string \<times> string) list"

datatype decode_error = UnknownBackendKind

text \<open>Modelled from the spec: one configuration value maps to exactly one discriminator.\<close>

fun kind_of :: "DictSourceConfiguration \<Rightarrow> string" where
  "kind_of FileDictSourceConfiguration = ''file''"
| "kind_of (HttpConfiguration hc) = ''http''"
| "kind_of (S3Configuration sc) = ''s3''"
| "kind_of S3MockDictSourceConfiguration = ''s3mock''"

text \<open>Modelled from the spec: the configuration's own fields.\<close>

fun fields_of :: "DictSourceConfiguration \<Rightarrow> raw" where
  "fields_of FileDictSourceConfiguration = []"
| "fields_of (HttpConfiguration hc) = [(''baseURL'', BaseURL hc)]"
| "fields_of (S3Configuration sc) = [(''s3Config'', S3Config sc)]"
| "fields_of S3MockDictSourceConfiguration = []"

text \<open>Modelled from the spec: \<open>Encode\<close> emits the discriminator field plus the configuration's fields.\<close>

definition Encode :: "DictSourceConfiguration \<Rightarrow> raw" where
  "Encode cfg = (''kind'', kind_of cfg) # fields_of cfg"

text \<open>Modelled from the spec: step (c) of \<open>Decode\<close>, the remaining fields overlaid onto the default.\<close>

fun overlay :: "raw \<Rightarrow> DictSourceConfiguration \<Rightarrow> DictSourceConfiguration" where
  "overlay fs FileDictSourceConfiguration = FileDictSourceConfiguration"
| "overlay fs (HttpConfiguration hc) =
     (case map_of fs ''baseURL'' of
        None \<Rightarrow> HttpConfiguration hc
      | Some u \<Rightarrow> HttpConfiguration (hc\<lparr>BaseURL := u\<rparr>))"
| "overlay fs (S3Configuration sc) =
     (case map_of fs ''s3Config'' of
        None \<Rightarrow> S3Configuration sc
      | Some v \<Rightarrow> S3Configuration (sc\<lparr>S3Config := v\<rparr>))"
| "overlay fs S3MockDictSourceConfiguration = S3MockDictSourceConfiguration"

text \<open>
  Modelled from the spec: \<open>Decode\<close> reads the discriminator field, resolves the default
  configuration for that kind in the registry, overlays the remaining fields and returns
  the configuration; a discriminator absent from the registry is \<open>UnknownBackendKind\<close>.
  The specification does not say what a value without the discriminator field decodes
  to; it names no registered kind and is rejected with the same error.
\<close>

definition Decode :: "raw \<Rightarrow> decode_error + DictSourceConfiguration" where
  "Decode fs =
     (case map_of fs ''kind'' of
        None \<Rightarrow> Inl UnknownBackendKind
      | Some k \<Rightarrow>
          (case dictSourceConfigurationMap k of
             None \<Rightarrow> Inl UnknownBackendKind
           | Some dflt \<Rightarrow> Inr (overlay fs (dflt ()))))"

subsection \<open>What a construction or a fetch hands back\<close>

text \<open>A returned pair with a non-nil error and, respectively, with an instance and a nil error.\<close>

fun returns_error :: "('a option \<times> error option) outcome \<Rightarrow> bool" where
  "returns_error (Returns (x, Some e)) = True"
| "returns_error (Returns (x, None)) = False"
| "returns_error (Panics v) = False"

fun returns_instance :: "('a option \<times> error option) outcome \<Rightarrow> bool" where
  "returns_instance (Returns (Some x, None)) = True"
| "returns_instance (Returns (None, None)) = False"
| "returns_instance (Returns (x, Some e)) = False"
| "returns_instance (Panics v) = False"

text \<open>
  The Go convention for a result pair \<^verbatim>\<open>(io.ReadCloser, error)\<close>: the stream is the nil
  interface exactly when the error is not nil.
\<close>

fun nil_stream_iff_error :: "Get_result \<Rightarrow> bool" where
  "nil_stream_iff_error (Returns (rd, err)) = ((rd = None) = (err \<noteq> None))"
| "nil_stream_iff_error (Panics v) = False"

section \<open>Package routing: the component (inlet/routing/root.go)\<close>

text \<open>
  \<^verbatim>\<open>context.Context\<close>, by what its \<^verbatim>\<open>Err()\<close> reports: nil while the context is live,
  \<^verbatim>\<open>Canceled\<close> or \<^verbatim>\<open>DeadlineExceeded\<close> afterwards.
\<close>

datatype context_error = Canceled | DeadlineExceeded

datatype Context = Context "context_error option"

text \<open>\<^verbatim>\<open>netip.Addr\<close>: a 128-bit address and a zone.\<close>

datatype Addr = Addr "128 word" string

text \<open>
  \<^verbatim>\<open>*reporter.Reporter\<close>, by the info messages logged through it, oldest first.
  \<^verbatim>\<open>c.r.Info().Msg(m)\<close> appends one.
\<close>

type_synonym Reporter = "string list"

definition Info_Msg :: "Reporter \<Rightarrow> string \<Rightarrow> Reporter" where
  "Info_Msg rep m = rep @ [m]"

text \<open>
  A non-nil value of the interface \<^verbatim>\<open>provider.Provider\<close>: the provider's own state
  \<open>self\<close> and the methods of its dynamic type, each taking the state and returning its
  results with the new state. \<open>Lookup\<close> is the one method the interface requires.
  \<open>Start\<close> and \<open>Stop\<close> are \<open>None\<close> when the dynamic type has no such method, which is
  what the type assertions \<^verbatim>\<open>c.provider.(starter)\<close> and \<^verbatim>\<open>c.provider.(stopper)\<close> test.
  The type \<open>'res\<close> is \<^verbatim>\<open>provider.LookupResult\<close>, declared in another package.
\<close>

record ('p, 'res) Provider =
  self :: 'p
  Lookup :: "'p \<Rightarrow> Context \<Rightarrow> Addr \<Rightarrow> Addr \<Rightarrow> 'res \<times> 'p"
  Start :: "('p \<Rightarrow> error option \<times> 'p) option"
  Stop :: "('p \<Rightarrow> error option \<times> 'p) option"

text \<open>The struct \<^verbatim>\<open>Component\<close>. The field \<open>provider\<close> has interface type: \<open>None\<close> is the nil interface.\<close>

record ('p, 'res) Component =
  r :: Reporter
  provider :: "('p, 'res) Provider option"

text \<open>
  \<^verbatim>\<open>New(r, configuration, dependencies)\<close>. The call
  \<^verbatim>\<open>configuration.Provider.Config.New(r, dependencies)\<close> goes to a provider configuration of
  another package and is the parameter \<open>Config_New\<close>.
\<close>

definition routing_New ::
  "Reporter \<Rightarrow> (Reporter \<Rightarrow> 'd \<Rightarrow> ('p, 'res) Provider option \<times> error option) \<Rightarrow> 'd
     \<Rightarrow> ('p, 'res) Component option \<times> error option" where
  "routing_New rep Config_New dependencies =
     (case Config_New rep dependencies of
        (selectedProvider, Some err) \<Rightarrow> (None, Some err)
      | (selectedProvider, None) \<Rightarrow> (Some \<lparr>r = rep, provider = selectedProvider\<rparr>, None))"

text \<open>
  \<^verbatim>\<open>Start\<close> and \<^verbatim>\<open>Stop\<close> return the error and the component after the call. A type
  assertion with \<^verbatim>\<open>ok\<close> on the nil interface gives \<^verbatim>\<open>ok = false\<close>.
\<close>

definition Component_Start ::
  "('p, 'res) Component \<Rightarrow> error option \<times> ('p, 'res) Component" where
  "Component_Start facade =
     (let c1 = facade\<lparr>r := Info_Msg (r facade) ''starting routing component''\<rparr> in
      case provider c1 of
        None \<Rightarrow> (None, c1)
      | Some p \<Rightarrow>
          (case Start p of
             None \<Rightarrow> (None, c1)
           | Some starterP_Start \<Rightarrow>
               (case starterP_Start (self p) of
                  (Some err, s') \<Rightarrow> (Some err, c1\<lparr>provider := Some (p\<lparr>self := s'\<rparr>)\<rparr>)
                | (None, s') \<Rightarrow> (None, c1\<lparr>provider := Some (p\<lparr>self := s'\<rparr>)\<rparr>))))"

definition Component_Stop ::
  "('p, 'res) Component \<Rightarrow> error option \<times> ('p, 'res) Component" where
  "Component_Stop facade =
     (let c1 = facade\<lparr>r := Info_Msg (r facade) ''stopping routing component''\<rparr> in
      case provider c1 of
        None \<Rightarrow> (None, c1)
      | Some p \<Rightarrow>
          (case Stop p of
             None \<Rightarrow> (None, c1)
           | Some stopperP_Stop \<Rightarrow>
               (case stopperP_Stop (self p) of
                  (Some err, s') \<Rightarrow> (Some err, c1\<lparr>provider := Some (p\<lparr>self := s'\<rparr>)\<rparr>)
                | (None, s') \<Rightarrow> (None, c1\<lparr>provider := Some (p\<lparr>self := s'\<rparr>)\<rparr>))))"

text \<open>
  \<^verbatim>\<open>Lookup\<close> returns the provider's result and the component after the call. A method
  call on the nil interface panics.
\<close>

definition Component_Lookup ::
  "('p, 'res) Component \<Rightarrow> Context \<Rightarrow> Addr \<Rightarrow> Addr \<Rightarrow> ('res \<times> ('p, 'res) Component) outcome" where
  "Component_Lookup facade ctx ip nh =
     (case provider facade of
        None \<Rightarrow> Panics NilDereference
      | Some p \<Rightarrow>
          (case Lookup p (self p) ctx ip nh of
             (res, s') \<Rightarrow> Returns (res, facade\<lparr>provider := Some (p\<lparr>self := s'\<rparr>)\<rparr>)))"

section \<open>Fixtures\<close>

text \<open>
  A small world for concrete runs: one readable file, one file the process may not read,
  one URL answering 200, one answering 404 with an error page, every other host
  unreachable, and a gateway holding one object.
\<close>

definition example_files :: "string \<Rightarrow> errno + byte list" where
  "example_files name =
     (if name = ''/var/lib/dict/asns.csv'' then Inr [0x41, 0x53, 0x4E]
      else if name = ''/root/private.csv'' then Inl EACCES
      else Inl ENOENT)"

definition example_http_Get :: "string \<Rightarrow> Response option \<times> error option" where
  "example_http_Get url =
     (if url = ''http://dict.example/asns.csv''
        then (Some \<lparr>StatusCode = 200, Body = Some (Stream [0x31, 0x2C, 0x41])\<rparr>, None)
      else if url = ''http://dict.example/gone''
        then (Some \<lparr>StatusCode = 404, Body = Some (Stream [0x34, 0x30, 0x34])\<rparr>, None)
      else (None, Some (NetError ''dial tcp: lookup: no such host'')))"

definition example_GetObject ::
  "s3_Component_ptr \<Rightarrow> string \<Rightarrow> string \<Rightarrow> (ReadCloser option \<times> error option) outcome" where
  "example_GetObject p cfg key =
     (if p = None then Panics NilDereference
      else if cfg = ''dicts'' \<and> key = ''asns.csv'' then Returns (Some (Stream [0x31, 0x2C, 0x41]), None)
      else Returns (None, Some (GatewayError ''NoSuchKey'')))"

definition example_world :: world where
  "example_world =
     \<lparr>files = example_files, http_Get = example_http_Get, GetObject = example_GetObject\<rparr>"

text \<open>
  Modelled from the spec: the declaration of \<^verbatim>\<open>provider.LookupResult\<close> is not among the
  sources. Section 3 of the specification gives it an AS number, an AS path and
  communities; the empty result is a first-class value.
\<close>

record LookupResult =
  ASN :: "32 word"
  ASPath :: "32 word list"
  Communities :: "32 word list"

definition empty_LookupResult :: LookupResult where
  "empty_LookupResult = \<lparr>ASN = 0, ASPath = [], Communities = []\<rparr>"

text \<open>
  Two providers. \<open>static_provider\<close> has neither \<^verbatim>\<open>Start\<close> nor \<^verbatim>\<open>Stop\<close>; its state counts
  the lookups, and it answers a context that is done with the empty result.
  \<open>session_provider\<close> has both, and both fail.
\<close>

fun static_Lookup :: "nat \<Rightarrow> Context \<Rightarrow> Addr \<Rightarrow> Addr \<Rightarrow> LookupResult \<times> nat" where
  "static_Lookup n (Context None) ip nh =
     (\<lparr>ASN = 64512, ASPath = [64512, 64513], Communities = [100]\<rparr>, Suc n)"
| "static_Lookup n (Context (Some e)) ip nh = (empty_LookupResult, Suc n)"

definition static_provider :: "(nat, LookupResult) Provider" where
  "static_provider = \<lparr>self = 0, Lookup = static_Lookup, Start = None, Stop = None\<rparr>"

definition session_provider :: "(nat, LookupResult) Provider" where
  "session_provider =
     \<lparr>self = 0, Lookup = static_Lookup,
      Start = Some (\<lambda>n. (Some (ProviderError ''listen: address already in use''), Suc n)),
      Stop = Some (\<lambda>n. (Some (ProviderError ''session already closed''), Suc n))\<rparr>"

section \<open>The registry and the configuration codec\<close>

lemma registry_dom:
  "dom dictSourceConfigurationMap = {''file'', ''http'', ''s3'', ''s3mock''}"
  by (auto simp add: dictSourceConfigurationMap_def split: if_splits)

lemma registry_cases:
  "dictSourceConfigurationMap k = Some d \<Longrightarrow>
     (k = ''file'' \<and> d = DefaultFileDictSourceConfiguration) \<or>
     (k = ''http'' \<and> d = DefaultHttpDictSourceConfiguration) \<or>
     (k = ''s3'' \<and> d = DefaultS3DictSourceConfiguration) \<or>
     (k = ''s3mock'' \<and> d = DefaultS3MockDictSourceConfiguration)"
  by (auto simp add: dictSourceConfigurationMap_def split: if_splits)

lemma registry_lookups:
  "dictSourceConfigurationMap ''file'' = Some DefaultFileDictSourceConfiguration"
  "dictSourceConfigurationMap ''http'' = Some DefaultHttpDictSourceConfiguration"
  "dictSourceConfigurationMap ''s3'' = Some DefaultS3DictSourceConfiguration"
  "dictSourceConfigurationMap ''s3mock'' = Some DefaultS3MockDictSourceConfiguration"
  "dictSourceConfigurationMap ''ftp'' = None"
  by (simp_all add: dictSourceConfigurationMap_def)

lemma registry_kind_of:
  "dictSourceConfigurationMap k = Some d \<Longrightarrow> kind_of (d ()) = k"
  by (auto dest!: registry_cases)

lemma Decode_Encode: "Decode (Encode cfg) = Inr cfg"
  by (cases cfg) (simp_all add: Decode_def Encode_def dictSourceConfigurationMap_def)

lemma New_of_working_kind:
  "cfg \<noteq> S3MockDictSourceConfiguration \<Longrightarrow> returns_instance (DictSourceConfiguration_New cfg p)"
  by (cases cfg)
    (simp_all add: FileDictSourceConfiguration_New_def HttpDictSourceConfiguration_New_def
      S3DictSourceConfiguration_New_def)

section \<open>Construction of a dict source\<close>

text \<open>
  Claim C2, as amended. For a registered discriminator other than \<open>s3mock\<close>, and for every
  configuration of the file, HTTP or S3 kind whatever its fields, \<^verbatim>\<open>New\<close> returns an
  instance and a nil error. For the reserved discriminator \<open>s3mock\<close>, \<^verbatim>\<open>New\<close> does not
  return: it panics with "not implemented", so the caller gets neither an instance nor
  an error value. The registry has exactly the four keys; a discriminator outside it has
  no default configuration, and decoding a value that names it fails with
  \<open>UnknownBackendKind\<close>.
\<close>

theorem New_by_discriminator:
  "(dictSourceConfigurationMap k = Some d \<and> k \<noteq> ''s3mock'' \<longrightarrow>
      returns_instance (DictSourceConfiguration_New (d ()) p)) \<and>
   (cfg \<noteq> S3MockDictSourceConfiguration \<longrightarrow>
      returns_instance (DictSourceConfiguration_New cfg p)) \<and>
   (dictSourceConfigurationMap ''s3mock'' = Some d \<longrightarrow>
      DictSourceConfiguration_New (d ()) p = Panics (PanicString ''not implemented'')) \<and>
   dom dictSourceConfigurationMap = {''file'', ''http'', ''s3'', ''s3mock''} \<and>
   (dictSourceConfigurationMap k = None \<and> map_of fs ''kind'' = Some k \<longrightarrow>
      Decode fs = Inl UnknownBackendKind)"
proof (intro conjI impI)
  assume "dictSourceConfigurationMap k = Some d \<and> k \<noteq> ''s3mock''"
  then have "d () \<noteq> S3MockDictSourceConfiguration"
    by (auto dest!: registry_cases)
  then show "returns_instance (DictSourceConfiguration_New (d ()) p)"
    by (rule New_of_working_kind)
next
  assume "cfg \<noteq> S3MockDictSourceConfiguration"
  then show "returns_instance (DictSourceConfiguration_New cfg p)"
    by (rule New_of_working_kind)
next
  assume "dictSourceConfigurationMap ''s3mock'' = Some d"
  then have "d = DefaultS3MockDictSourceConfiguration"
    by (simp add: registry_lookups)
  then show "DictSourceConfiguration_New (d ()) p = Panics (PanicString ''not implemented'')"
    by (simp add: S3MockDictSourceConfiguration_New_def)
next
  show "dom dictSourceConfigurationMap = {''file'', ''http'', ''s3'', ''s3mock''}"
    by (rule registry_dom)
next
  assume "dictSourceConfigurationMap k = None \<and> map_of fs ''kind'' = Some k"
  then show "Decode fs = Inl UnknownBackendKind"
    by (simp add: Decode_def)
qed

text \<open>
  The statement at the registry's \<open>http\<close> and \<open>s3mock\<close> entries, at an S3 configuration
  with a field set, and at the unregistered discriminator \<open>ftp\<close>.
\<close>

theorem New_by_discriminator_witness:
  "dictSourceConfigurationMap ''http'' = Some DefaultHttpDictSourceConfiguration \<and>
   returns_instance (DictSourceConfiguration_New (DefaultHttpDictSourceConfiguration ()) (Some 1)) \<and>
   returns_instance (DictSourceConfiguration_New (S3Configuration \<lparr>S3Config = ''dicts''\<rparr>) (Some 1)) \<and>
   dictSourceConfigurationMap ''s3mock'' = Some DefaultS3MockDictSourceConfiguration \<and>
   DictSourceConfiguration_New (DefaultS3MockDictSourceConfiguration ()) (Some 1)
     = Panics (PanicString ''not implemented'') \<and>
   dictSourceConfigurationMap ''ftp'' = None \<and>
   Decode [(''kind'', ''ftp''), (''baseURL'', ''ftp://dict.example'')] = Inl UnknownBackendKind"
  using
    New_by_discriminator [of "''http''" DefaultHttpDictSourceConfiguration "Some 1"
      "S3Configuration \<lparr>S3Config = ''dicts''\<rparr>" "[]"]
    New_by_discriminator [of "''s3mock''" DefaultS3MockDictSourceConfiguration "Some 1"
      "S3Configuration \<lparr>S3Config = ''dicts''\<rparr>" "[]"]
    New_by_discriminator [of "''ftp''" DefaultS3MockDictSourceConfiguration "Some 1"
      FileDictSourceConfiguration "[(''kind'', ''ftp''), (''baseURL'', ''ftp://dict.example'')]"]
  by (simp add: registry_lookups)

text \<open>
  The claim as it was stated asks for a construction that is total and, for the mock,
  hands back an explicit error. At the default configuration of \<open>s3mock\<close> the call
  returns nothing: no error value is returned, the call panics.
\<close>

theorem S3Mock_New_counterexample:
  "\<not> returns_error (DictSourceConfiguration_New (DefaultS3MockDictSourceConfiguration ()) None) \<and>
   DictSourceConfiguration_New (DefaultS3MockDictSourceConfiguration ()) None
     = Panics (PanicString ''not implemented'')"
  by (simp add: S3MockDictSourceConfiguration_New_def)

text \<open>
  Claim C5. For every registered discriminator \<open>k\<close>, with \<open>d\<close> its default constructor,
  decoding the encoding of the default configuration gives that configuration back, and
  the encoding carries \<open>k\<close> in its discriminator field.
\<close>

theorem Decode_Encode_default:
  "dictSourceConfigurationMap k = Some d \<Longrightarrow>
     Decode (Encode (d ())) = Inr (d ()) \<and> map_of (Encode (d ())) ''kind'' = Some k"
proof -
  assume reg: "dictSourceConfigurationMap k = Some d"
  have "Decode (Encode (d ())) = Inr (d ())"
    by (rule Decode_Encode)
  moreover have "map_of (Encode (d ())) ''kind'' = Some k"
    using registry_kind_of [OF reg] by (simp add: Encode_def)
  ultimately show ?thesis by simp
qed

theorem Decode_Encode_default_witness:
  "dictSourceConfigurationMap ''http'' = Some DefaultHttpDictSourceConfiguration \<and>
   Encode (DefaultHttpDictSourceConfiguration ()) = [(''kind'', ''http''), (''baseURL'', '''')] \<and>
   Decode [(''kind'', ''http''), (''baseURL'', '''')] = Inr (HttpConfiguration \<lparr>BaseURL = ''''\<rparr>)"
  using Decode_Encode_default [of "''http''" DefaultHttpDictSourceConfiguration]
  by (simp add: registry_lookups Encode_def)

section \<open>Fetching from a dict source\<close>

text \<open>
  Claim C7. The filesystem source opens the key as a local path. Whatever error
  \<^verbatim>\<open>os.Open\<close> returns is the error \<^verbatim>\<open>Get\<close> returns; when opening the path fails with
  error number \<open>e\<close> (not found, permission denied, any other), the caller gets the
  path error of the operating system for that key and \<open>e\<close>; when the path holds a
  readable file with bytes \<open>bs\<close>, the caller gets a nil error and a stream that reads
  exactly \<open>bs\<close>.
\<close>

theorem FileDictSource_Get_result:
  "(\<exists>rd. FileDictSource_Get w key = Returns (rd, snd (os_Open w key))) \<and>
   (files w key = Inl e \<longrightarrow>
      FileDictSource_Get w key = Returns (Some (OsFile None), Some (PathError ''open'' key e))) \<and>
   (files w key = Inr bs \<longrightarrow>
      FileDictSource_Get w key = Returns (Some (OsFile (Some (File key bs))), None) \<and>
      ReadAll (OsFile (Some (File key bs))) = Inr bs)"
  by (simp add: FileDictSource_Get_def os_Open_def split: sum.splits)

theorem FileDictSource_Get_result_witness:
  "files example_world ''/var/lib/dict/missing.csv'' = Inl ENOENT \<and>
   FileDictSource_Get example_world ''/var/lib/dict/missing.csv''
     = Returns (Some (OsFile None), Some (PathError ''open'' ''/var/lib/dict/missing.csv'' ENOENT)) \<and>
   files example_world ''/root/private.csv'' = Inl EACCES \<and>
   FileDictSource_Get example_world ''/root/private.csv''
     = Returns (Some (OsFile None), Some (PathError ''open'' ''/root/private.csv'' EACCES)) \<and>
   files example_world ''/var/lib/dict/asns.csv'' = Inr [0x41, 0x53, 0x4E] \<and>
   FileDictSource_Get example_world ''/var/lib/dict/asns.csv''
     = Returns (Some (OsFile (Some (File ''/var/lib/dict/asns.csv'' [0x41, 0x53, 0x4E]))), None)"
  using
    FileDictSource_Get_result [of example_world "''/var/lib/dict/missing.csv''" ENOENT "[]"]
    FileDictSource_Get_result [of example_world "''/root/private.csv''" EACCES "[]"]
    FileDictSource_Get_result [of example_world "''/var/lib/dict/asns.csv''" ENOENT "[0x41, 0x53, 0x4E]"]
  by (simp add: example_world_def example_files_def)

text \<open>
  Claim C6. The HTTP source calls \<^verbatim>\<open>http.Get\<close> on the key. When that call returns an
  error (the connection or the name resolution failed), \<^verbatim>\<open>Get\<close> returns that error and
  the nil stream. When it returns a response and a nil error, \<^verbatim>\<open>Get\<close> returns the body
  of the response and a nil error, and the status code of the response plays no part:
  replacing it by any other code leaves the result as it is.
\<close>

theorem HttpDictSource_Get_result:
  "(http_Get w key = (resp, Some err) \<longrightarrow>
      HttpDictSource_Get w key = Returns (None, Some err)) \<and>
   (http_Get w key = (Some rsp, None) \<longrightarrow>
      HttpDictSource_Get w key = Returns (Body rsp, None)) \<and>
   HttpDictSource_Get
       (w\<lparr>http_Get := (http_Get w)(key := (Some (rsp\<lparr>StatusCode := code\<rparr>), None))\<rparr>) key
     = Returns (Body rsp, None)"
  by (simp add: HttpDictSource_Get_def split: option.splits)

theorem HttpDictSource_Get_result_witness:
  "http_Get example_world ''http://unreachable.example/asns.csv''
     = (None, Some (NetError ''dial tcp: lookup: no such host'')) \<and>
   HttpDictSource_Get example_world ''http://unreachable.example/asns.csv''
     = Returns (None, Some (NetError ''dial tcp: lookup: no such host'')) \<and>
   http_Get example_world ''http://dict.example/gone''
     = (Some \<lparr>StatusCode = 404, Body = Some (Stream [0x34, 0x30, 0x34])\<rparr>, None) \<and>
   HttpDictSource_Get example_world ''http://dict.example/gone''
     = Returns (Some (Stream [0x34, 0x30, 0x34]), None)"
  using
    HttpDictSource_Get_result [of example_world "''http://unreachable.example/asns.csv''"
      None "NetError ''dial tcp: lookup: no such host''"
      "\<lparr>StatusCode = 404, Body = Some (Stream [0x34, 0x30, 0x34])\<rparr>" 404]
    HttpDictSource_Get_result [of example_world "''http://dict.example/gone''"
      None "NetError ''dial tcp: lookup: no such host''"
      "\<lparr>StatusCode = 404, Body = Some (Stream [0x34, 0x30, 0x34])\<rparr>" 404]
  by (simp add: example_world_def example_http_Get_def)

text \<open>
  Claim C8. The S3 source calls the gateway's \<^verbatim>\<open>GetObject\<close> with the configured
  \<^verbatim>\<open>S3Config\<close> and the key. On a nil error it returns the gateway's stream with a nil
  error; on an error it returns the nil stream and that same error; if the gateway
  panics, so does \<^verbatim>\<open>Get\<close>. Whenever the gateway's pair follows the convention (no stream
  beside an error), the result of \<^verbatim>\<open>Get\<close> is the gateway's result itself.
\<close>

theorem S3DictSource_Get_result:
  "(GetObject w (c s) (S3Config (config s)) key = Returns (rd, None) \<longrightarrow>
      S3DictSource_Get s w key = Returns (rd, None)) \<and>
   (GetObject w (c s) (S3Config (config s)) key = Returns (rd, Some err) \<longrightarrow>
      S3DictSource_Get s w key = Returns (None, Some err)) \<and>
   (GetObject w (c s) (S3Config (config s)) key = Panics v \<longrightarrow>
      S3DictSource_Get s w key = Panics v) \<and>
   (GetObject w (c s) (S3Config (config s)) key = Returns (rd, e) \<and> (e \<noteq> None \<longrightarrow> rd = None) \<longrightarrow>
      S3DictSource_Get s w key = GetObject w (c s) (S3Config (config s)) key)"
  by (auto simp add: S3DictSource_Get_def split: option.splits)

theorem S3DictSource_Get_result_witness:
  "GetObject example_world (Some 1) ''dicts'' ''asns.csv''
     = Returns (Some (Stream [0x31, 0x2C, 0x41]), None) \<and>
   S3DictSource_Get \<lparr>config = \<lparr>S3Config = ''dicts''\<rparr>, c = Some 1\<rparr> example_world ''asns.csv''
     = Returns (Some (Stream [0x31, 0x2C, 0x41]), None) \<and>
   GetObject example_world (Some 1) ''dicts'' ''communities.csv''
     = Returns (None, Some (GatewayError ''NoSuchKey'')) \<and>
   S3DictSource_Get \<lparr>config = \<lparr>S3Config = ''dicts''\<rparr>, c = Some 1\<rparr> example_world ''communities.csv''
     = Returns (None, Some (GatewayError ''NoSuchKey'')) \<and>
   GetObject example_world None ''dicts'' ''asns.csv'' = Panics NilDereference \<and>
   S3DictSource_Get \<lparr>config = \<lparr>S3Config = ''dicts''\<rparr>, c = None\<rparr> example_world ''asns.csv''
     = Panics NilDereference"
  using
    S3DictSource_Get_result [of example_world "\<lparr>config = \<lparr>S3Config = ''dicts''\<rparr>, c = Some 1\<rparr>"
      "''asns.csv''" "Some (Stream [0x31, 0x2C, 0x41])" "GatewayError ''NoSuchKey''"
      NilDereference None]
    S3DictSource_Get_result [of example_world "\<lparr>config = \<lparr>S3Config = ''dicts''\<rparr>, c = Some 1\<rparr>"
      "''communities.csv''" None "GatewayError ''NoSuchKey''"
      NilDereference "Some (GatewayError ''NoSuchKey'')"]
    S3DictSource_Get_result [of example_world "\<lparr>config = \<lparr>S3Config = ''dicts''\<rparr>, c = None\<rparr>"
      "''asns.csv''" None "GatewayError ''NoSuchKey''" NilDereference None]
  by (simp add: example_world_def example_GetObject_def)

text \<open>
  Claim C10. \<^verbatim>\<open>New\<close> of an HTTP configuration returns the source \<^verbatim>\<open>HttpDictSource{}\<close>
  and a nil error, whatever the configuration holds. So the sources constructed from
  two HTTP configurations, which can differ in \<open>BaseURL\<close> only, return the same result
  for every key: the key alone is the URL that is fetched.
\<close>

theorem Http_New_discards_BaseURL:
  "DictSourceConfiguration_New (HttpConfiguration hc) p = Returns (Some HttpDictSource, None) \<and>
   (DictSourceConfiguration_New (HttpConfiguration hc1) p1 = Returns (Some src1, e1) \<and>
    DictSourceConfiguration_New (HttpConfiguration hc2) p2 = Returns (Some src2, e2) \<longrightarrow>
      e1 = None \<and> e2 = None \<and> src1 = src2 \<and>
      DictSource_Get src1 w key = DictSource_Get src2 w key \<and>
      DictSource_Get src1 w key = HttpDictSource_Get w key)"
  by (auto simp add: HttpDictSourceConfiguration_New_def)

theorem Http_New_discards_BaseURL_witness:
  "DictSourceConfiguration_New (HttpConfiguration \<lparr>BaseURL = ''http://dict.example''\<rparr>) None
     = Returns (Some HttpDictSource, None) \<and>
   DictSourceConfiguration_New (HttpConfiguration \<lparr>BaseURL = ''http://other.example''\<rparr>) (Some 1)
     = Returns (Some HttpDictSource, None) \<and>
   DictSource_Get HttpDictSource example_world ''http://dict.example/gone''
     = Returns (Some (Stream [0x34, 0x30, 0x34]), None)"
proof -
  have n1: "DictSourceConfiguration_New (HttpConfiguration \<lparr>BaseURL = ''http://dict.example''\<rparr>) None
      = Returns (Some HttpDictSource, None)"
    by (simp add: HttpDictSourceConfiguration_New_def)
  have n2: "DictSourceConfiguration_New (HttpConfiguration \<lparr>BaseURL = ''http://other.example''\<rparr>) (Some 1)
      = Returns (Some HttpDictSource, None)"
    by (simp add: HttpDictSourceConfiguration_New_def)
  have "DictSource_Get HttpDictSource example_world ''http://dict.example/gone''
      = HttpDictSource_Get example_world ''http://dict.example/gone''"
    using n1 n2 Http_New_discards_BaseURL
      [of "\<lparr>BaseURL = ''http://dict.example''\<rparr>" None
          "\<lparr>BaseURL = ''http://dict.example''\<rparr>" None HttpDictSource None
          "\<lparr>BaseURL = ''http://other.example''\<rparr>" "Some 1" HttpDictSource None
          example_world "''http://dict.example/gone''"]
    by simp
  then show ?thesis
    using n1 n2 by (simp add: HttpDictSource_Get_def example_world_def example_http_Get_def)
qed

text \<open>
  Claim C9, at the input where the code departs from it. Opening a path that does not
  exist, the filesystem source returns an error and, beside it, a stream that is not
  nil: the interface value of dynamic type \<^verbatim>\<open>*os.File\<close> holding the nil pointer that
  \<^verbatim>\<open>os.Open\<close> returned. The HTTP and the S3 source return the literal \<^verbatim>\<open>nil\<close> there.
\<close>

theorem FileDictSource_Get_error_stream_not_nil:
  "DictSource_Get FileDictSource example_world ''nonexistent/path''
     = Returns (Some (OsFile None), Some (PathError ''open'' ''nonexistent/path'' ENOENT)) \<and>
   \<not> nil_stream_iff_error (DictSource_Get FileDictSource example_world ''nonexistent/path'')"
  by (simp add: FileDictSource_Get_def os_Open_def example_world_def example_files_def)

text \<open>
  What does hold of every source, every world and every key: a stream returned beside
  an error is never usable; and the HTTP and S3 sources return the nil stream beside
  every error.
\<close>

lemma Get_error_stream_unusable:
  "DictSource_Get src w key = Returns (rd, Some err) \<Longrightarrow> \<not> usable rd"
  by (cases src)
    (auto simp add: FileDictSource_Get_def os_Open_def HttpDictSource_Get_def
      S3DictSource_Get_def split: sum.splits option.splits prod.splits outcome.splits)

lemma Http_S3_Get_error_stream_nil:
  "src \<noteq> FileDictSource \<Longrightarrow> DictSource_Get src w key = Returns (rd, Some err) \<Longrightarrow> rd = None"
  by (cases src)
    (auto simp add: HttpDictSource_Get_def S3DictSource_Get_def
      split: option.splits prod.splits outcome.splits)

section \<open>The routing component\<close>

text \<open>
  Claim C1. For every context, cancelled or past its deadline included, and every pair
  of addresses, \<^verbatim>\<open>Lookup\<close> of a component holding a provider returns: its result is the
  result of the provider's \<^verbatim>\<open>Lookup\<close> on the same context and addresses, as it is, and
  the component afterwards differs only by the state that call left in the provider.
  The result type has no error.
\<close>

theorem Component_Lookup_is_provider_Lookup:
  "provider facade = Some p \<Longrightarrow>
   Component_Lookup facade ctx ip nh =
     Returns (fst (Lookup p (self p) ctx ip nh),
              facade\<lparr>provider := Some (p\<lparr>self := snd (Lookup p (self p) ctx ip nh)\<rparr>)\<rparr>)"
  by (simp add: Component_Lookup_def split: prod.splits)

theorem Component_Lookup_is_provider_Lookup_witness:
  "provider \<lparr>r = [], provider = Some static_provider\<rparr> = Some static_provider \<and>
   Component_Lookup \<lparr>r = [], provider = Some static_provider\<rparr>
       (Context (Some Canceled)) (Addr 1 []) (Addr 2 [])
     = Returns (empty_LookupResult, \<lparr>r = [], provider = Some (static_provider\<lparr>self := 1\<rparr>)\<rparr>) \<and>
   Component_Lookup \<lparr>r = [], provider = Some static_provider\<rparr>
       (Context (Some DeadlineExceeded)) (Addr 1 []) (Addr 2 [])
     = Returns (empty_LookupResult, \<lparr>r = [], provider = Some (static_provider\<lparr>self := 1\<rparr>)\<rparr>) \<and>
   Component_Lookup \<lparr>r = [], provider = Some static_provider\<rparr>
       (Context None) (Addr 1 []) (Addr 2 [])
     = Returns (\<lparr>ASN = 64512, ASPath = [64512, 64513], Communities = [100]\<rparr>,
                \<lparr>r = [], provider = Some (static_provider\<lparr>self := 1\<rparr>)\<rparr>)"
  using
    Component_Lookup_is_provider_Lookup
      [of "\<lparr>r = [], provider = Some static_provider\<rparr>" static_provider
          "Context (Some Canceled)" "Addr 1 []" "Addr 2 []"]
    Component_Lookup_is_provider_Lookup
      [of "\<lparr>r = [], provider = Some static_provider\<rparr>" static_provider
          "Context (Some DeadlineExceeded)" "Addr 1 []" "Addr 2 []"]
    Component_Lookup_is_provider_Lookup
      [of "\<lparr>r = [], provider = Some static_provider\<rparr>" static_provider
          "Context None" "Addr 1 []" "Addr 2 []"]
  by (simp add: static_provider_def)

text \<open>
  Claim C3. When the provider held by the component has no \<^verbatim>\<open>Start\<close> method,
  \<^verbatim>\<open>Component.Start\<close> returns nil and leaves the provider as it was; all it does is log
  its one line. When the provider has a \<^verbatim>\<open>Start\<close> method and that call returns an
  error, \<^verbatim>\<open>Component.Start\<close> returns that error, and the component holds the provider
  in the state the failed call left. The component has no field recording that it
  runs: the returned error is all a caller sees of the failed start.
\<close>

theorem Component_Start_capability:
  "(provider facade = Some p \<and> Start p = None \<longrightarrow>
      Component_Start facade =
        (None, facade\<lparr>r := r facade @ [''starting routing component'']\<rparr>)) \<and>
   (provider facade = Some p \<and> Start p = Some start \<and> fst (start (self p)) = Some err \<longrightarrow>
      Component_Start facade =
        (Some err, facade\<lparr>r := r facade @ [''starting routing component''],
                          provider := Some (p\<lparr>self := snd (start (self p))\<rparr>)\<rparr>))"
  by (auto simp add: Component_Start_def Info_Msg_def Let_def split: prod.splits option.splits)

theorem Component_Start_capability_witness:
  "Start static_provider = None \<and>
   Component_Start \<lparr>r = [], provider = Some static_provider\<rparr>
     = (None, \<lparr>r = [''starting routing component''], provider = Some static_provider\<rparr>) \<and>
   Component_Start \<lparr>r = [], provider = Some session_provider\<rparr>
     = (Some (ProviderError ''listen: address already in use''),
        \<lparr>r = [''starting routing component''], provider = Some (session_provider\<lparr>self := 1\<rparr>)\<rparr>)"
  using
    Component_Start_capability
      [of "\<lparr>r = [], provider = Some static_provider\<rparr>" static_provider
          "\<lambda>n. (None, n)" "ProviderError ''listen: address already in use''"]
    Component_Start_capability
      [of "\<lparr>r = [], provider = Some session_provider\<rparr>" session_provider
          "\<lambda>n. (Some (ProviderError ''listen: address already in use''), Suc n)"
          "ProviderError ''listen: address already in use''"]
  by (simp add: static_provider_def session_provider_def)

text \<open>
  Claim C4. When the provider held by the component has a \<^verbatim>\<open>Stop\<close> method,
  \<^verbatim>\<open>Component.Stop\<close> calls it and returns what it returns, an error or nil, and the
  component holds the provider in the state that call left. When the provider has no
  \<^verbatim>\<open>Stop\<close> method, \<^verbatim>\<open>Component.Stop\<close> returns nil and leaves the provider as it was;
  all it does is log its one line.
\<close>

theorem Component_Stop_capability:
  "(provider facade = Some p \<and> Stop p = Some stop \<longrightarrow>
      Component_Stop facade =
        (fst (stop (self p)),
         facade\<lparr>r := r facade @ [''stopping routing component''],
                provider := Some (p\<lparr>self := snd (stop (self p))\<rparr>)\<rparr>)) \<and>
   (provider facade = Some p \<and> Stop p = None \<longrightarrow>
      Component_Stop facade =
        (None, facade\<lparr>r := r facade @ [''stopping routing component'']\<rparr>))"
  by (auto simp add: Component_Stop_def Info_Msg_def Let_def split: prod.splits option.splits)

theorem Component_Stop_capability_witness:
  "Stop static_provider = None \<and>
   Component_Stop \<lparr>r = [''starting routing component''], provider = Some static_provider\<rparr>
     = (None, \<lparr>r = [''starting routing component'', ''stopping routing component''],
               provider = Some static_provider\<rparr>) \<and>
   Component_Stop \<lparr>r = [], provider = Some session_provider\<rparr>
     = (Some (ProviderError ''session already closed''),
        \<lparr>r = [''stopping routing component''], provider = Some (session_provider\<lparr>self := 1\<rparr>)\<rparr>)"
  using
    Component_Stop_capability
      [of "\<lparr>r = [''starting routing component''], provider = Some static_provider\<rparr>"
          static_provider "\<lambda>n. (None, n)"]
    Component_Stop_capability
      [of "\<lparr>r = [], provider = Some session_provider\<rparr>" session_provider
          "\<lambda>n. (Some (ProviderError ''session already closed''), Suc n)"]
  by (simp add: static_provider_def session_provider_def)

text \<open>
  A component whose provider is the nil interface: both type assertions fail, so
  \<^verbatim>\<open>Start\<close> and \<^verbatim>\<open>Stop\<close> return nil, and \<^verbatim>\<open>Lookup\<close> panics.
\<close>

lemma Component_without_provider:
  "provider facade = None \<Longrightarrow>
     fst (Component_Start facade) = None \<and> fst (Component_Stop facade) = None \<and>
     Component_Lookup facade ctx ip nh = Panics NilDereference"
  by (simp add: Component_Start_def Component_Stop_def Component_Lookup_def Let_def)

text \<open>
  \<^verbatim>\<open>New\<close> hands the error of the provider's configuration to its caller and builds no
  component then; otherwise the component holds the provider that the configuration
  selected, with the reporter it was given.
\<close>

lemma routing_New_result:
  "(Config_New rep deps = (sp, Some err) \<longrightarrow>
      routing_New rep Config_New deps = (None, Some err)) \<and>
   (Config_New rep deps = (sp, None) \<longrightarrow>
      routing_New rep Config_New deps = (Some \<lparr>r = rep, provider = sp\<rparr>, None))"
  by (simp add: routing_New_def)

end
